theory Spec2Isabelle
  imports Complex_Main
begin

section \<open>Python values and coercions\<close>

text \<open>
  The handlers of \<^verbatim>\<open>app.py\<close> read untyped strings from \<^verbatim>\<open>request.form\<close> and
  \<^verbatim>\<open>request.args\<close> and coerce them with Python's \<^verbatim>\<open>float(...)\<close> and \<^verbatim>\<open>int(...)\<close>.
  A Python float is modelled by its exact value: a rational, one of the two infinities,
  or NaN. Rounding to binary64 (and overflow of a huge literal to an infinity) is not
  modelled. Strings are lists of 8-bit characters; the decimal digits and the white space
  that Python accepts beyond ASCII are not modelled, and neither is the limit on the
  number of digits that recent interpreters put on \<^verbatim>\<open>int(...)\<close>. The exceptions are the
  two a coercion raises and the two the store raises.
\<close>

datatype pyfloat = Finite rat | PosInf | NegInf | NaN

datatype number = PyInt int | PyFloat pyfloat

datatype exn = ValueError | TypeError | OverflowError | IntegrityError

definition is_space :: "char \<Rightarrow> bool" where
  "is_space c = (c \<in> set [CHR 0x09, CHR 0x0A, CHR 0x0B, CHR 0x0C, CHR 0x0D, CHR 0x20])"

definition is_digit :: "char \<Rightarrow> bool" where
  "is_digit c = (c \<in> set ''0123456789'')"

definition digit_val :: "char \<Rightarrow> int" where
  "digit_val c = (case map_of (zip ''0123456789'' [0, 1, 2, 3, 4, 5, 6, 7, 8, 9]) c of
                    Some n \<Rightarrow> n | None \<Rightarrow> 0)"

definition int_of_digits :: "string \<Rightarrow> int" where
  "int_of_digits ds = foldl (\<lambda>n c. 10 * n + digit_val c) 0 ds"

definition strip :: "string \<Rightarrow> string" where
  "strip s = rev (dropWhile is_space (rev (dropWhile is_space s)))"

text \<open>
  An underscore is accepted only between two digits; the accepted underscores are dropped
  before the literal is read. The flag says whether the previous character was a digit.
\<close>

fun remove_underscores :: "bool \<Rightarrow> string \<Rightarrow> string option" where
  "remove_underscores prev [] = Some []"
| "remove_underscores prev (c # cs) =
     (if c = CHR ''_'' then
        (case cs of
           [] \<Rightarrow> None
         | d # _ \<Rightarrow> if prev \<and> is_digit d then remove_underscores False cs else None)
      else map_option ((#) c) (remove_underscores (is_digit c) cs))"

definition split_sign :: "string \<Rightarrow> bool \<times> string" where
  "split_sign s =
     (case s of
        [] \<Rightarrow> (False, [])
      | c # r \<Rightarrow>
          if c = CHR ''-'' then (True, r) else if c = CHR ''+'' then (False, r) else (False, s))"

definition lower_ascii :: "char \<Rightarrow> char" where
  "lower_ascii c =
     (case map_of (zip ''ABCDEFGHIJKLMNOPQRSTUVWXYZ'' ''abcdefghijklmnopqrstuvwxyz'') c of
        Some l \<Rightarrow> l | None \<Rightarrow> c)"

definition lower :: "string \<Rightarrow> string" where
  "lower s = map lower_ascii s"

definition pow10 :: "int \<Rightarrow> rat" where
  "pow10 e = (if 0 \<le> e then 10 ^ nat e else 1 / 10 ^ nat (- e))"

definition parse_exponent :: "string \<Rightarrow> int option" where
  "parse_exponent s =
     (case s of
        [] \<Rightarrow> Some 0
      | c # r \<Rightarrow>
          if c = CHR ''e'' \<or> c = CHR ''E'' then
            (case split_sign r of (neg, ds) \<Rightarrow>
               if ds \<noteq> [] \<and> list_all is_digit ds
               then Some (if neg then - int_of_digits ds else int_of_digits ds)
               else None)
          else None)"

definition parse_decimal :: "string \<Rightarrow> rat option" where
  "parse_decimal s =
     (let ip = takeWhile is_digit s;
          r1 = dropWhile is_digit s;
          (fp, r2) = (case r1 of
                        [] \<Rightarrow> ([], [])
                      | c # r \<Rightarrow> if c = CHR ''.''
                                 then (takeWhile is_digit r, dropWhile is_digit r)
                                 else ([], r1))
      in if ip = [] \<and> fp = [] then None
         else (case parse_exponent r2 of
                 None \<Rightarrow> None
               | Some e \<Rightarrow> Some (of_int (int_of_digits (ip @ fp)) * pow10 (e - int (length fp)))))"

text \<open>\<^verbatim>\<open>float(s)\<close> on a string: \<open>None\<close> stands for the ValueError.\<close>

definition str_to_float :: "string \<Rightarrow> pyfloat option" where
  "str_to_float s =
     (case remove_underscores False (strip s) of
        None \<Rightarrow> None
      | Some t \<Rightarrow>
          (case split_sign t of (neg, body) \<Rightarrow>
             if lower body = ''inf'' \<or> lower body = ''infinity''
             then Some (if neg then NegInf else PosInf)
             else if lower body = ''nan'' then Some NaN
             else map_option (\<lambda>q. Finite (if neg then - q else q)) (parse_decimal body)))"

text \<open>\<^verbatim>\<open>int(s)\<close> on a string, base ten: \<open>None\<close> stands for the ValueError.\<close>

definition str_to_int :: "string \<Rightarrow> int option" where
  "str_to_int s =
     (case split_sign (strip s) of (neg, body) \<Rightarrow>
        (case remove_underscores False body of
           None \<Rightarrow> None
         | Some ds \<Rightarrow>
             if ds \<noteq> [] \<and> list_all is_digit ds
             then Some (if neg then - int_of_digits ds else int_of_digits ds)
             else None))"

text \<open>
  The handlers apply the coercions to what \<^verbatim>\<open>request.form.get\<close> returned, which is
  \<^verbatim>\<open>None\<close> for an absent field: then Python raises TypeError.
\<close>

definition py_float :: "string option \<Rightarrow> exn + pyfloat" where
  "py_float v =
     (case v of
        None \<Rightarrow> Inl TypeError
      | Some s \<Rightarrow> (case str_to_float s of None \<Rightarrow> Inl ValueError | Some f \<Rightarrow> Inr f))"

definition py_int :: "string option \<Rightarrow> exn + int" where
  "py_int v =
     (case v of
        None \<Rightarrow> Inl TypeError
      | Some s \<Rightarrow> (case str_to_int s of None \<Rightarrow> Inl ValueError | Some n \<Rightarrow> Inr n))"

text \<open>Truthiness of an optional string: \<^verbatim>\<open>None\<close> and the empty string are false.\<close>

definition truthy :: "string option \<Rightarrow> bool" where
  "truthy v = (case v of None \<Rightarrow> False | Some s \<Rightarrow> s \<noteq> [])"

text \<open>What an f-string prints for an optional string.\<close>

definition fstr :: "string option \<Rightarrow> string" where
  "fstr v = (case v of None \<Rightarrow> ''None'' | Some s \<Rightarrow> s)"

section \<open>The table and the session\<close>

text \<open>
  \<^verbatim>\<open>DrinkService\<close> is the one mapped class. The primary key is the field \<open>id_pk\<close>
  (\<^verbatim>\<open>id\<close> in the source). The price column receives a float from the create and the
  full-update handlers and an int from the price handler, so it holds a \<open>number\<close>.
\<close>

record DrinkService =
  id_pk :: int
  name :: string
  description :: "string option"
  price :: number
  duration :: int

text \<open>
  The store is the SQLite file named in the configuration, reached through Python's
  driver. The driver binds an integer only if it fits the signed 64-bit INTEGER of the
  store and raises OverflowError otherwise; it binds a NaN as NULL, which the price
  column, declared \<^verbatim>\<open>nullable=False\<close>, refuses with IntegrityError. Every parameter of a
  statement is bound before the statement runs, so the overflow is met first.
\<close>

definition sqlite_int :: "int \<Rightarrow> bool" where
  "sqlite_int n = (- (2 ^ 63) \<le> n \<and> n < 2 ^ 63)"

definition binds :: "number \<Rightarrow> bool" where
  "binds x = (case x of PyInt n \<Rightarrow> sqlite_int n | PyFloat f \<Rightarrow> True)"

definition binds_null :: "number \<Rightarrow> bool" where
  "binds_null x = (x = PyFloat NaN)"

text \<open>Sequencing of steps that may raise.\<close>

definition raise_or :: "exn + 'a \<Rightarrow> ('a \<Rightarrow> exn + 'b) \<Rightarrow> exn + 'b" where
  "raise_or m f = (case m of Inl e \<Rightarrow> Inl e | Inr x \<Rightarrow> f x)"

text \<open>
  The table is the list of committed rows in the store's order. A session starts each
  request with nothing pending; \<^verbatim>\<open>db.session.add\<close>, an attribute assignment on a loaded
  object and \<^verbatim>\<open>db.session.delete\<close> register a pending change, and only
  \<^verbatim>\<open>db.session.commit\<close> writes the pending changes to the table, all of them or, when
  one of them raises, none.
\<close>

datatype pending =
    Added string "string option" number int
  | Modified DrinkService
  | Deleted DrinkService

record session =
  table :: "DrinkService list"
  pending :: "pending list"

definition begin_session :: "DrinkService list \<Rightarrow> session" where
  "begin_session rows = \<lparr>table = rows, pending = []\<rparr>"

text \<open>
  The key given to an inserted row: one more than the greatest key, 1 in an empty table.
  This is the store's rule while the greatest key is below the greatest 64-bit integer.
\<close>

definition next_id :: "DrinkService list \<Rightarrow> int" where
  "next_id rows = (case map id_pk rows of [] \<Rightarrow> 1 | i # js \<Rightarrow> fold max js i + 1)"

text \<open>
  One pending change written to the table. The INSERT binds the price and the duration.
  The UPDATE of a loaded object sets the columns whose value differs from the loaded
  row, and binds those. The DELETE binds the key of the loaded row.
\<close>

fun flush :: "pending \<Rightarrow> DrinkService list \<Rightarrow> exn + DrinkService list" where
  "flush (Added n d p t) rows =
     (if \<not> binds p \<or> \<not> sqlite_int t then Inl OverflowError
      else if binds_null p then Inl IntegrityError
      else Inr (rows @
             [\<lparr>id_pk = next_id rows, name = n, description = d, price = p, duration = t\<rparr>]))"
| "flush (Modified obj) rows =
     (case find (\<lambda>r. id_pk r = id_pk obj) rows of
        None \<Rightarrow> Inr rows
      | Some loaded \<Rightarrow>
          if (price obj \<noteq> price loaded \<and> \<not> binds (price obj))
             \<or> (duration obj \<noteq> duration loaded \<and> \<not> sqlite_int (duration obj))
          then Inl OverflowError
          else if price obj \<noteq> price loaded \<and> binds_null (price obj) then Inl IntegrityError
          else Inr (map (\<lambda>r. if id_pk r = id_pk obj then obj else r) rows))"
| "flush (Deleted obj) rows = Inr (filter (\<lambda>r. id_pk r \<noteq> id_pk obj) rows)"

fun flush_all :: "pending list \<Rightarrow> DrinkService list \<Rightarrow> exn + DrinkService list" where
  "flush_all [] rows = Inr rows"
| "flush_all (p # ps) rows = raise_or (flush p rows) (flush_all ps)"

definition session_add :: "session \<Rightarrow> pending \<Rightarrow> session" where
  "session_add s p = s\<lparr>pending := pending s @ [p]\<rparr>"

definition commit :: "session \<Rightarrow> exn + session" where
  "commit s =
     (case flush_all (pending s) (table s) of
        Inl e \<Rightarrow> Inl e
      | Inr rows \<Rightarrow> Inr \<lparr>table = rows, pending = []\<rparr>)"

definition rollback :: "session \<Rightarrow> session" where
  "rollback s = s\<lparr>pending := []\<rparr>"

text \<open>
  \<^verbatim>\<open>DrinkService.query.get(drink_id)\<close>: the row with that key, if any. The key is bound
  as a parameter of the SELECT.
\<close>

definition query_get :: "session \<Rightarrow> int \<Rightarrow> exn + DrinkService option" where
  "query_get s drink_id =
     (if sqlite_int drink_id then Inr (find (\<lambda>r. id_pk r = drink_id) (table s))
      else Inl OverflowError)"

text \<open>
  A query under construction: the integers it will bind, and the rows its conditions
  select. A name pattern and a float always bind. \<^verbatim>\<open>query.all()\<close> runs the SELECT.
\<close>

type_synonym query = "int list \<times> DrinkService list"

definition query_filter :: "query \<Rightarrow> (DrinkService \<Rightarrow> bool) \<Rightarrow> query" where
  "query_filter q cond = (fst q, filter cond (snd q))"

definition query_filter_int :: "query \<Rightarrow> int \<Rightarrow> (DrinkService \<Rightarrow> bool) \<Rightarrow> query" where
  "query_filter_int q b cond = (b # fst q, filter cond (snd q))"

definition query_all :: "query \<Rightarrow> exn + DrinkService list" where
  "query_all q = (if list_all sqlite_int (fst q) then Inr (snd q) else Inl OverflowError)"

section \<open>Responses\<close>

datatype json =
    JNull
  | JInt int
  | JNum number
  | JStr string
  | JArr "json list"
  | JObj "(string \<times> json) list"

datatype body = Json json | Text string

type_synonym response = "body \<times> nat"

text \<open>A handler returns a response or raises; an exception it does not catch is \<open>Inl\<close>.\<close>

type_synonym outcome = "exn + response"

type_synonym params = "string \<rightharpoonup> string"

definition jsonify :: "json \<Rightarrow> body" where
  "jsonify j = Json j"

definition json_opt_str :: "string option \<Rightarrow> json" where
  "json_opt_str v = (case v of None \<Rightarrow> JNull | Some s \<Rightarrow> JStr s)"

definition json_opt_int :: "int option \<Rightarrow> json" where
  "json_opt_int v = (case v of None \<Rightarrow> JNull | Some n \<Rightarrow> JInt n)"

definition drink_json :: "DrinkService \<Rightarrow> json" where
  "drink_json drink =
     JObj [(''id'', JInt (id_pk drink)),
           (''name'', JStr (name drink)),
           (''description'', json_opt_str (description drink)),
           (''price'', JNum (price drink)),
           (''duration'', JInt (duration drink))]"

section \<open>Comparisons and pattern matching in queries\<close>

definition as_float :: "number \<Rightarrow> pyfloat" where
  "as_float x = (case x of PyInt n \<Rightarrow> Finite (of_int n) | PyFloat f \<Rightarrow> f)"

text \<open>
  The order of floats: NaN is below and above nothing (as a bound it is NULL in the
  store, and a comparison with NULL selects no row).
\<close>

fun float_le :: "pyfloat \<Rightarrow> pyfloat \<Rightarrow> bool" where
  "float_le NaN y = False"
| "float_le x NaN = False"
| "float_le NegInf y = True"
| "float_le x PosInf = True"
| "float_le (Finite a) (Finite b) = (a \<le> b)"
| "float_le x y = False"

text \<open>
  The LIKE operator: in the pattern \<open>%\<close> stands for any run of characters and \<open>_\<close> for
  any one character. \<^verbatim>\<open>ilike\<close> compares the lower-cased text with the lower-cased pattern.
  The store's limit on the length of a pattern and its reading of a text up to a NUL
  character are outside the model.
\<close>

fun like :: "string \<Rightarrow> string \<Rightarrow> bool" where
  "like [] s = (s = [])"
| "like (p # ps) [] = (p = CHR ''%'' \<and> like ps [])"
| "like (p # ps) (c # cs) =
     (if p = CHR ''%'' then like ps (c # cs) \<or> like (p # ps) cs
      else (p = CHR ''_'' \<or> p = c) \<and> like ps cs)"

definition ilike :: "string \<Rightarrow> string \<Rightarrow> bool" where
  "ilike text pattern = like (lower pattern) (lower text)"

section \<open>The handlers\<close>

text \<open>
  Each handler takes the committed table and the request, and returns what the view
  returns or raises together with the session as the handler leaves it. What the next
  request will see is the \<open>table\<close> of that session.
\<close>

definition not_found :: response where
  "not_found = (jsonify (JObj [(''error'', JStr ''Drink not found'')]), 404)"

text \<open>
  \<^verbatim>\<open>db.session.commit()\<close> followed by the return of a response: when the commit raises,
  the exception leaves the handler and the transaction is rolled back.
\<close>

definition commit_and_return :: "session \<Rightarrow> response \<Rightarrow> outcome \<times> session" where
  "commit_and_return s resp =
     (case commit s of Inl e \<Rightarrow> (Inl e, rollback s) | Inr s' \<Rightarrow> (Inr resp, s'))"

text \<open>\<^verbatim>\<open>POST /drinks\<close>. The \<^verbatim>\<open>except\<close> clause catches both exceptions of a coercion.\<close>

definition add_drink :: "DrinkService list \<Rightarrow> params \<Rightarrow> outcome \<times> session" where
  "add_drink rows form =
     (let s = begin_session rows;
          name = form ''name'';
          description = form ''description'';
          price = form ''price'';
          duration = form ''duration'';
          missing = (Inr (jsonify (JObj [(''error'', JStr ''Missing required fields'')]), 400), s);
          invalid = (Inr (jsonify (JObj [(''error'',
                       JStr ''Invalid data types for price or duration'')]), 400), s)
      in case name of
           None \<Rightarrow> missing
         | Some n \<Rightarrow>
             if n = [] \<or> \<not> truthy price \<or> \<not> truthy duration then missing
             else (case py_float price of
                     Inl e \<Rightarrow> invalid
                   | Inr p \<Rightarrow>
                       (case py_int duration of
                          Inl e \<Rightarrow> invalid
                        | Inr t \<Rightarrow>
                            commit_and_return (session_add s (Added n description (PyFloat p) t))
                              (jsonify (JObj [(''message'',
                                 JStr ''New drink added successfully'')]), 201))))"

text \<open>\<^verbatim>\<open>DELETE /drinks/<int:drink_id>\<close>.\<close>

definition delete_drink :: "DrinkService list \<Rightarrow> int \<Rightarrow> outcome \<times> session" where
  "delete_drink rows drink_id =
     (let s = begin_session rows
      in case query_get s drink_id of
           Inl e \<Rightarrow> (Inl e, s)
         | Inr None \<Rightarrow> (Inr not_found, s)
         | Inr (Some drink) \<Rightarrow> commit_and_return (session_add s (Deleted drink)) (Text [], 204))"

text \<open>
  \<^verbatim>\<open>GET /drinks\<close>. The query is narrowed one filter at a time; a coercion that raises
  ends the handler there, before the query runs.
\<close>

definition filter_drinks :: "DrinkService list \<Rightarrow> params \<Rightarrow> outcome \<times> session" where
  "filter_drinks rows args =
     (let s = begin_session rows;
          name_arg = args ''name'';
          min_price = args ''min_price'';
          max_price = args ''max_price'';
          min_duration = args ''min_duration'';
          max_duration = args ''max_duration'';
          query = ([], table s);
          query1 = (if truthy name_arg
                    then query_filter query
                           (\<lambda>d. ilike (name d) (''%'' @ fstr name_arg @ ''%''))
                    else query)
      in (raise_or (if truthy min_price
                    then raise_or (py_float min_price)
                           (\<lambda>b. Inr (query_filter query1 (\<lambda>d. float_le b (as_float (price d)))))
                    else Inr query1) (\<lambda>query2.
          raise_or (if truthy max_price
                    then raise_or (py_float max_price)
                           (\<lambda>b. Inr (query_filter query2 (\<lambda>d. float_le (as_float (price d)) b)))
                    else Inr query2) (\<lambda>query3.
          raise_or (if truthy min_duration
                    then raise_or (py_int min_duration)
                           (\<lambda>b. Inr (query_filter_int query3 b (\<lambda>d. b \<le> duration d)))
                    else Inr query3) (\<lambda>query4.
          raise_or (if truthy max_duration
                    then raise_or (py_int max_duration)
                           (\<lambda>b. Inr (query_filter_int query4 b (\<lambda>d. duration d \<le> b)))
                    else Inr query4) (\<lambda>query5.
          raise_or (query_all query5) (\<lambda>drinks.
          Inr (jsonify (JArr (map drink_json drinks)), 200)))))),
          s))"

text \<open>\<^verbatim>\<open>PATCH /drinks/<int:drink_id>\<close>. The coercion is not guarded here.\<close>

definition increase_price :: "DrinkService list \<Rightarrow> int \<Rightarrow> params \<Rightarrow> outcome \<times> session" where
  "increase_price rows drink_id form =
     (let s = begin_session rows
      in case query_get s drink_id of
           Inl e \<Rightarrow> (Inl e, s)
         | Inr (Some drink) \<Rightarrow>
             (let new_price = form ''price''
              in case py_int new_price of
                   Inl e \<Rightarrow> (Inl e, s)
                 | Inr n \<Rightarrow>
                     commit_and_return (session_add s (Modified (drink\<lparr>price := PyInt n\<rparr>)))
                       (jsonify (JObj [(''message'', JStr ''Price updated successfully'')]), 200))
         | Inr None \<Rightarrow> (Inr not_found, s))"

text \<open>
  \<^verbatim>\<open>PUT /drinks/<int:drink_id>\<close>. Every assignment to an attribute of the loaded object
  is registered in the session at once; the commit comes last.
\<close>

definition assign :: "session \<Rightarrow> DrinkService \<Rightarrow> DrinkService \<times> session" where
  "assign s obj = (obj, session_add s (Modified obj))"

definition update_drink :: "DrinkService list \<Rightarrow> int \<Rightarrow> params \<Rightarrow> outcome \<times> session" where
  "update_drink rows drink_id form =
     (let s = begin_session rows
      in case query_get s drink_id of
           Inl e \<Rightarrow> (Inl e, s)
         | Inr None \<Rightarrow> (Inr not_found, s)
         | Inr (Some drink) \<Rightarrow>
             (let (drink1, s1) = (case form ''name'' of
                                    None \<Rightarrow> (drink, s)
                                  | Some v \<Rightarrow> assign s (drink\<lparr>name := v\<rparr>));
                  (drink2, s2) = (case form ''description'' of
                                    None \<Rightarrow> (drink1, s1)
                                  | Some v \<Rightarrow> assign s1 (drink1\<lparr>description := Some v\<rparr>))
              in case (case form ''price'' of
                         None \<Rightarrow> Inr (drink2, s2)
                       | Some v \<Rightarrow>
                           (case py_float (Some v) of
                              Inl e \<Rightarrow> Inl s2
                            | Inr p \<Rightarrow> Inr (assign s2 (drink2\<lparr>price := PyFloat p\<rparr>)))) of
                   Inl s' \<Rightarrow>
                     (Inr (jsonify (JObj [(''error'', JStr ''Invalid data type for price'')]), 400), s')
                 | Inr (drink3, s3) \<Rightarrow>
                     (case (case form ''duration'' of
                              None \<Rightarrow> Inr (drink3, s3)
                            | Some v \<Rightarrow>
                                (case py_int (Some v) of
                                   Inl e \<Rightarrow> Inl s3
                                 | Inr t \<Rightarrow> Inr (assign s3 (drink3\<lparr>duration := t\<rparr>)))) of
                        Inl s' \<Rightarrow>
                          (Inr (jsonify (JObj [(''error'',
                                  JStr ''Invalid data type for duration'')]), 400), s')
                      | Inr (drink4, s4) \<Rightarrow>
                          commit_and_return s4
                            (jsonify (JObj [(''message'',
                               JStr ''Drink updated successfully'')]), 200))))"

text \<open>
  \<^verbatim>\<open>GET /drinks/max_duration\<close>. The aggregate of an empty table is \<^verbatim>\<open>None\<close>, and no row
  has a duration equal to \<^verbatim>\<open>None\<close>; \<^verbatim>\<open>first()\<close> takes the first row in the store's order.
  The duration the second query binds comes from the table.
\<close>

definition sql_max :: "int list \<Rightarrow> int option" where
  "sql_max xs = (case xs of [] \<Rightarrow> None | x # ys \<Rightarrow> Some (fold max ys x))"

definition get_max_duration :: "DrinkService list \<Rightarrow> outcome \<times> session" where
  "get_max_duration rows =
     (let s = begin_session rows;
          max_duration = sql_max (map duration (table s));
          drink = find (\<lambda>r. Some (duration r) = max_duration) (table s)
      in case drink of
           Some d \<Rightarrow>
             (Inr (jsonify (JObj [(''max_duration'', json_opt_int max_duration),
                                  (''drink_name'', JStr (name d))]), 200), s)
         | None \<Rightarrow> (Inr (jsonify (JObj [(''message'', JStr ''No drinks found'')]), 200), s))"

section \<open>Observing the store\<close>

text \<open>
  The catalog a handler leaves behind, and the drink a later lookup of a key finds in a
  catalog (none when the lookup raises).
\<close>

definition catalog :: "outcome \<times> session \<Rightarrow> DrinkService list" where
  "catalog r = table (snd r)"

definition fetch :: "DrinkService list \<Rightarrow> int \<Rightarrow> DrinkService option" where
  "fetch rows i = (case query_get (begin_session rows) i of Inl e \<Rightarrow> None | Inr r \<Rightarrow> r)"

text \<open>
  The specification reads the name filter as a case-insensitive substring test. This is
  that reading, to be compared with \<open>ilike\<close> on the pattern the handler builds.
\<close>

fun starts_with :: "string \<Rightarrow> string \<Rightarrow> bool" where
  "starts_with s [] = True"
| "starts_with [] (c # cs) = False"
| "starts_with (x # xs) (c # cs) = (x = c \<and> starts_with xs cs)"

fun contains :: "string \<Rightarrow> string \<Rightarrow> bool" where
  "contains [] n = (n = [])"
| "contains (x # xs) n = (starts_with (x # xs) n \<or> contains xs n)"

definition spec_name_match :: "string \<Rightarrow> string \<Rightarrow> bool" where
  "spec_name_match n stored = contains (lower stored) (lower n)"

text \<open>The catalog of the specification's examples, and requests to create it.\<close>

definition sample_rows :: "DrinkService list" where
  "sample_rows =
     [\<lparr>id_pk = 1, name = ''Tea'', description = None,
         price = PyFloat (Finite 5), duration = 3\<rparr>,
      \<lparr>id_pk = 2, name = ''Coffee'', description = None,
         price = PyFloat (Finite 8), duration = 5\<rparr>,
      \<lparr>id_pk = 3, name = ''Cocoa'', description = None,
         price = PyFloat (Finite 5), duration = 10\<rparr>]"

section \<open>Properties\<close>

subsection \<open>Lookups after a change of the table\<close>

lemma fetch_find:
  "fetch rows i = (if sqlite_int i then find (\<lambda>r. id_pk r = i) rows else None)"
  by (simp add: fetch_def query_get_def begin_session_def)

lemma fetch_Some_id: "fetch rows i = Some d \<Longrightarrow> id_pk d = i"
  by (auto simp: fetch_find find_Some_iff split: if_splits)

lemma fetch_Some_query:
  "fetch rows i = Some d \<Longrightarrow> query_get \<lparr>table = rows, pending = []\<rparr> i = Inr (Some d)"
  by (auto simp: fetch_def query_get_def begin_session_def split: if_splits)

lemma fetch_None_query:
  "sqlite_int i \<Longrightarrow> fetch rows i = None \<Longrightarrow>
   query_get \<lparr>table = rows, pending = []\<rparr> i = Inr None"
  by (auto simp: fetch_def query_get_def begin_session_def split: if_splits)

lemma fetch_filter_same: "fetch (filter (\<lambda>r. id_pk r \<noteq> i) rows) i = None"
  by (simp add: fetch_find find_None_iff)

lemma fetch_filter_other:
  "j \<noteq> i \<Longrightarrow> fetch (filter (\<lambda>r. id_pk r \<noteq> i) rows) j = fetch rows j"
  by (induction rows) (auto simp: fetch_find)

lemma fetch_map_same:
  "id_pk obj = i \<Longrightarrow>
   fetch (map (\<lambda>r. if id_pk r = i then obj else r) rows) i =
     (case fetch rows i of None \<Rightarrow> None | Some d \<Rightarrow> Some obj)"
  by (induction rows) (auto simp: fetch_find)

lemma fetch_map_other:
  "id_pk obj = i \<Longrightarrow> j \<noteq> i \<Longrightarrow>
   fetch (map (\<lambda>r. if id_pk r = i then obj else r) rows) j = fetch rows j"
  by (induction rows) (auto simp: fetch_find)

lemma flush_modified_Inr:
  assumes "flush (Modified obj) rows = Inr rows'"
  shows "rows' = map (\<lambda>r. if id_pk r = id_pk obj then obj else r) rows"
proof (cases "find (\<lambda>r. id_pk r = id_pk obj) rows")
  case None
  then have "\<forall>r\<in>set rows. id_pk r \<noteq> id_pk obj" by (simp add: find_None_iff)
  then have "map (\<lambda>r. if id_pk r = id_pk obj then obj else r) rows = rows"
    by (induction rows) auto
  with None assms show ?thesis by simp
next
  case (Some loaded)
  with assms show ?thesis by (simp split: if_splits)
qed

lemma sqlite_int_bounds:
  "sqlite_int 2" "sqlite_int 7" "\<not> sqlite_int 9223372036854775808"
  by (simp_all add: sqlite_int_def)

subsection \<open>Delete\<close>

lemma delete_drink_in_range:
  "(sqlite_int i \<and> fetch rows i = None \<longrightarrow>
      fst (delete_drink rows i) = Inr not_found \<and> catalog (delete_drink rows i) = rows)
   \<and> (fetch rows i \<noteq> None \<longrightarrow>
        fst (delete_drink rows i) = Inr (Text [], 204)
        \<and> catalog (delete_drink rows i) = filter (\<lambda>r. id_pk r \<noteq> i) rows
        \<and> fetch (catalog (delete_drink rows i)) i = None
        \<and> (\<forall>j. j \<noteq> i \<longrightarrow> fetch (catalog (delete_drink rows i)) j = fetch rows j))
   \<and> (\<not> sqlite_int i \<longrightarrow>
        fst (delete_drink rows i) = Inl OverflowError \<and> catalog (delete_drink rows i) = rows)"
proof (intro conjI impI)
  assume "sqlite_int i \<and> fetch rows i = None"
  then have q: "query_get \<lparr>table = rows, pending = []\<rparr> i = Inr None"
    by (simp add: fetch_None_query)
  then show "fst (delete_drink rows i) = Inr not_found" "catalog (delete_drink rows i) = rows"
    by (simp_all add: delete_drink_def catalog_def begin_session_def)
next
  assume "fetch rows i \<noteq> None"
  then obtain d where d: "fetch rows i = Some d" by auto
  then have idd: "id_pk d = i" by (rule fetch_Some_id)
  from d have q: "query_get \<lparr>table = rows, pending = []\<rparr> i = Inr (Some d)"
    by (rule fetch_Some_query)
  from q show out: "fst (delete_drink rows i) = Inr (Text [], 204)"
    by (simp add: delete_drink_def begin_session_def commit_and_return_def commit_def
        session_add_def raise_or_def)
  from q show cat: "catalog (delete_drink rows i) = filter (\<lambda>r. id_pk r \<noteq> i) rows"
    by (simp add: delete_drink_def catalog_def begin_session_def commit_and_return_def
        commit_def session_add_def raise_or_def idd)
  show "fetch (catalog (delete_drink rows i)) i = None"
    by (simp add: cat fetch_filter_same)
  show "\<forall>j. j \<noteq> i \<longrightarrow> fetch (catalog (delete_drink rows i)) j = fetch rows j"
    by (simp add: cat fetch_filter_other)
next
  assume "\<not> sqlite_int i"
  then show "fst (delete_drink rows i) = Inl OverflowError" "catalog (delete_drink rows i) = rows"
    by (simp_all add: delete_drink_def catalog_def begin_session_def query_get_def)
qed

text \<open>
  Claim C5. The claim promises the not-found error for every id that no drink has. The
  handler gives it for such an id only when the id fits the store's 64-bit integer: at
  the id 9223372036854775808, which no drink of the catalog has and which the route
  accepts, the lookup raises OverflowError and no response is returned. The catalog is
  as it was.
\<close>

theorem delete_drink_huge_id:
  "list_all (\<lambda>r. id_pk r \<noteq> 9223372036854775808) sample_rows
   \<and> fst (delete_drink sample_rows 9223372036854775808) = Inl OverflowError
   \<and> fst (delete_drink sample_rows 9223372036854775808) \<noteq> Inr not_found
   \<and> catalog (delete_drink sample_rows 9223372036854775808) = sample_rows"
  by (simp add: delete_drink_def catalog_def begin_session_def query_get_def sqlite_int_def
      sample_rows_def)

theorem delete_drink_huge_id_witness:
  "fst (delete_drink sample_rows 9223372036854775808) = Inl OverflowError"
  using delete_drink_huge_id by simp

subsection \<open>Price update\<close>

lemma str_to_int_examples:
  "str_to_int ''5.5'' = None" "str_to_int ''abc'' = None" "str_to_int ''9'' = Some 9"
  by (simp_all add: str_to_int_def strip_def is_space_def split_sign_def is_digit_def
      int_of_digits_def digit_val_def)

lemma increase_price_in_range:
  "(sqlite_int i \<and> fetch rows i = None \<longrightarrow>
      fst (increase_price rows i form) = Inr not_found
      \<and> catalog (increase_price rows i form) = rows)
   \<and> (\<forall>d v n. fetch rows i = Some d \<and> form ''price'' = Some v \<and> str_to_int v = Some n
         \<and> sqlite_int n \<longrightarrow>
        fst (increase_price rows i form) =
          Inr (jsonify (JObj [(''message'', JStr ''Price updated successfully'')]), 200)
        \<and> fetch (catalog (increase_price rows i form)) i = Some (d\<lparr>price := PyInt n\<rparr>)
        \<and> (\<forall>j. j \<noteq> i \<longrightarrow> fetch (catalog (increase_price rows i form)) j = fetch rows j))
   \<and> (\<not> sqlite_int i \<longrightarrow>
        fst (increase_price rows i form) = Inl OverflowError
        \<and> catalog (increase_price rows i form) = rows)"
proof (intro conjI impI allI)
  assume "sqlite_int i \<and> fetch rows i = None"
  then have q: "query_get \<lparr>table = rows, pending = []\<rparr> i = Inr None"
    by (simp add: fetch_None_query)
  then show "fst (increase_price rows i form) = Inr not_found"
    and "catalog (increase_price rows i form) = rows"
    by (simp_all add: increase_price_def catalog_def begin_session_def)
next
  fix d v n
  assume h: "fetch rows i = Some d \<and> form ''price'' = Some v \<and> str_to_int v = Some n
         \<and> sqlite_int n"
  then have idd: "id_pk d = i" by (auto dest: fetch_Some_id)
  from h have q: "query_get \<lparr>table = rows, pending = []\<rparr> i = Inr (Some d)"
    by (simp add: fetch_Some_query)
  from h have f: "find (\<lambda>r. id_pk r = i) rows = Some d"
    by (auto simp: fetch_find split: if_splits)
  have fl: "flush (Modified (d\<lparr>price := PyInt n\<rparr>)) rows =
      Inr (map (\<lambda>r. if id_pk r = i then d\<lparr>price := PyInt n\<rparr> else r) rows)"
    using h f by (simp add: idd binds_def binds_null_def)
  from h q fl have cat: "catalog (increase_price rows i form) =
      map (\<lambda>r. if id_pk r = i then d\<lparr>price := PyInt n\<rparr> else r) rows"
    by (simp add: increase_price_def catalog_def begin_session_def commit_and_return_def
        commit_def session_add_def py_int_def raise_or_def del: flush.simps)
  from h q fl show "fst (increase_price rows i form) =
      Inr (jsonify (JObj [(''message'', JStr ''Price updated successfully'')]), 200)"
    by (simp add: increase_price_def begin_session_def commit_and_return_def
        commit_def session_add_def py_int_def raise_or_def del: flush.simps)
  from h show "fetch (catalog (increase_price rows i form)) i = Some (d\<lparr>price := PyInt n\<rparr>)"
    by (simp add: cat fetch_map_same idd)
  fix j assume "j \<noteq> i"
  then show "fetch (catalog (increase_price rows i form)) j = fetch rows j"
    by (simp add: cat fetch_map_other idd)
next
  assume "\<not> sqlite_int i"
  then show "fst (increase_price rows i form) = Inl OverflowError"
    and "catalog (increase_price rows i form) = rows"
    by (simp_all add: increase_price_def catalog_def begin_session_def query_get_def)
qed

text \<open>
  Claim C3. The claim promises the not-found error for every id that no drink has. The
  handler gives it for such an id only when the id fits the store's 64-bit integer: at
  the id 9223372036854775808, which no drink of the catalog has and which the route
  accepts, the lookup raises OverflowError and no response is returned. The catalog is
  as it was.
\<close>

theorem increase_price_huge_id:
  "list_all (\<lambda>r. id_pk r \<noteq> 9223372036854775808) sample_rows
   \<and> fst (increase_price sample_rows 9223372036854775808 [''price'' \<mapsto> ''9'']) =
        Inl OverflowError
   \<and> fst (increase_price sample_rows 9223372036854775808 [''price'' \<mapsto> ''9'']) \<noteq>
        Inr not_found
   \<and> catalog (increase_price sample_rows 9223372036854775808 [''price'' \<mapsto> ''9'']) =
        sample_rows"
  by (simp add: increase_price_def catalog_def begin_session_def query_get_def sqlite_int_def
      sample_rows_def)

theorem increase_price_huge_id_witness:
  "fst (increase_price sample_rows 9223372036854775808 [''price'' \<mapsto> ''9'']) =
     Inl OverflowError"
  using increase_price_huge_id by simp

text \<open>
  Claim C9. The price update on an id that a drink has coerces the price without a guard:
  with no price in the form the handler raises TypeError, with a price that is not an
  integer literal (as 5.5 or abc) it raises ValueError; in both cases no response with a
  status is returned and the catalog is as it was.
\<close>

theorem increase_price_unguarded:
  assumes "fetch rows i = Some d"
  shows "(form ''price'' = None \<longrightarrow>
            fst (increase_price rows i form) = Inl TypeError
            \<and> catalog (increase_price rows i form) = rows)
       \<and> (\<forall>v. form ''price'' = Some v \<and> str_to_int v = None \<longrightarrow>
            fst (increase_price rows i form) = Inl ValueError
            \<and> catalog (increase_price rows i form) = rows)
       \<and> str_to_int ''5.5'' = None \<and> str_to_int ''abc'' = None"
  using fetch_Some_query [OF assms]
  by (auto simp: increase_price_def catalog_def begin_session_def py_int_def
      str_to_int_examples)

theorem increase_price_unguarded_witness:
  "fetch sample_rows 2 = Some (sample_rows ! 1)
   \<and> fst (increase_price sample_rows 2 Map.empty) = Inl TypeError
   \<and> catalog (increase_price sample_rows 2 Map.empty) = sample_rows
   \<and> fst (increase_price sample_rows 2 [''price'' \<mapsto> ''5.5'']) = Inl ValueError
   \<and> catalog (increase_price sample_rows 2 [''price'' \<mapsto> ''5.5'']) = sample_rows
   \<and> fst (increase_price sample_rows 2 [''price'' \<mapsto> ''abc'']) = Inl ValueError
   \<and> catalog (increase_price sample_rows 2 [''price'' \<mapsto> ''abc'']) = sample_rows"
proof -
  have h: "fetch sample_rows 2 = Some (sample_rows ! 1)"
    by (simp add: fetch_find sample_rows_def sqlite_int_def)
  show ?thesis
    using h increase_price_unguarded [OF h, of Map.empty]
      increase_price_unguarded [OF h, of "[''price'' \<mapsto> ''5.5'']"]
      increase_price_unguarded [OF h, of "[''price'' \<mapsto> ''abc'']"]
    by simp
qed

subsection \<open>Full update\<close>

lemma update_drink_rejects:
  assumes "fetch rows i = Some d"
    and "(\<exists>v. form ''price'' = Some v \<and> str_to_float v = None)
         \<or> (\<exists>v. form ''duration'' = Some v \<and> str_to_int v = None)"
  shows "\<exists>msg. fst (update_drink rows i form) = Inr (jsonify (JObj [(''error'', JStr msg)]), 400)"
proof -
  have q: "query_get \<lparr>table = rows, pending = []\<rparr> i = Inr (Some d)"
    using assms(1) by (rule fetch_Some_query)
  show ?thesis
  proof (cases "\<exists>v. form ''price'' = Some v \<and> str_to_float v = None")
    case True
    then show ?thesis
      using q
      by (auto simp: update_drink_def begin_session_def assign_def py_float_def Let_def
          split: option.splits)
  next
    case False
    with assms(2) have "\<exists>v. form ''duration'' = Some v \<and> str_to_int v = None" by blast
    with False show ?thesis
      using q
      by (auto simp: update_drink_def begin_session_def assign_def py_float_def py_int_def
          Let_def split: option.splits)
  qed
qed

text \<open>
  Claim C2. A full update of an existing drink in which a present price does not read as
  a float, or a present duration does not read as an integer, answers 400 with an error
  message, and the catalog is as it was: the commit is never reached. The assignments made
  before the failing coercion stay in the session only: a name supplied in the same
  request is on the loaded object, not in the table.
\<close>

theorem update_drink_invalid:
  assumes "fetch rows i = Some d"
    and "(\<exists>v. form ''price'' = Some v \<and> str_to_float v = None)
         \<or> (\<exists>v. form ''duration'' = Some v \<and> str_to_int v = None)"
  shows "(\<exists>msg. fst (update_drink rows i form) = Inr (jsonify (JObj [(''error'', JStr msg)]), 400))
       \<and> catalog (update_drink rows i form) = rows
       \<and> (\<forall>n. form ''name'' = Some n \<longrightarrow>
            (\<exists>obj. Modified obj \<in> set (pending (snd (update_drink rows i form)))
                   \<and> id_pk obj = i \<and> name obj = n))"
proof -
  have idd: "id_pk d = i" using assms(1) by (rule fetch_Some_id)
  have q: "query_get \<lparr>table = rows, pending = []\<rparr> i = Inr (Some d)"
    using assms(1) by (rule fetch_Some_query)
  show ?thesis
  proof (cases "\<exists>v. form ''price'' = Some v \<and> str_to_float v = None")
    case True
    then show ?thesis
      using q idd
      by (auto simp: update_drink_def catalog_def begin_session_def
          session_add_def assign_def py_float_def Let_def jsonify_def
          split: option.splits)
  next
    case False
    with assms(2) have "\<exists>v. form ''duration'' = Some v \<and> str_to_int v = None" by blast
    with False show ?thesis
      using q idd
      by (auto simp: update_drink_def catalog_def begin_session_def
          session_add_def assign_def py_float_def py_int_def Let_def jsonify_def
          split: option.splits)
  qed
qed

theorem update_drink_invalid_witness:
  "fetch sample_rows 2 = Some (sample_rows ! 1)
   \<and> str_to_int ''abc'' = None
   \<and> fst (update_drink sample_rows 2 [''name'' \<mapsto> ''Mocha'', ''duration'' \<mapsto> ''abc''])
       = Inr (jsonify (JObj [(''error'', JStr ''Invalid data type for duration'')]), 400)
   \<and> catalog (update_drink sample_rows 2 [''name'' \<mapsto> ''Mocha'', ''duration'' \<mapsto> ''abc''])
       = sample_rows
   \<and> pending (snd (update_drink sample_rows 2 [''name'' \<mapsto> ''Mocha'', ''duration'' \<mapsto> ''abc'']))
       = [Modified ((sample_rows ! 1)\<lparr>name := ''Mocha''\<rparr>)]"
proof -
  have h1: "fetch sample_rows 2 = Some (sample_rows ! 1)"
    by (simp add: fetch_find sample_rows_def sqlite_int_def)
  have h2: "str_to_int ''abc'' = None"
    by (simp add: str_to_int_def strip_def is_space_def split_sign_def is_digit_def)
  have h3: "(\<exists>v. [''name'' \<mapsto> ''Mocha'', ''duration'' \<mapsto> ''abc''] ''price'' = Some v
                 \<and> str_to_float v = None)
          \<or> (\<exists>v. [''name'' \<mapsto> ''Mocha'', ''duration'' \<mapsto> ''abc''] ''duration'' = Some v
                 \<and> str_to_int v = None)"
    using h2 by simp
  have q: "query_get \<lparr>table = sample_rows, pending = []\<rparr> 2 = Inr (Some (sample_rows ! 1))"
    using h1 by (rule fetch_Some_query)
  show ?thesis
    using h1 h2 update_drink_invalid [OF h1 h3] q
    by (simp add: update_drink_def begin_session_def session_add_def assign_def
        py_int_def jsonify_def)
qed

lemma flush_all_modified:
  assumes "flush_all ps rows = Inr rows'"
    and "list_all (\<lambda>p. \<exists>obj. p = Modified obj \<and> id_pk obj = i) ps"
    and "fetch rows i = Some d"
  shows "fetch rows' i = Some (foldl (\<lambda>a p. case p of Modified obj \<Rightarrow> obj | _ \<Rightarrow> a) d ps)
       \<and> (\<forall>j. j \<noteq> i \<longrightarrow> fetch rows' j = fetch rows j)"
  using assms
proof (induction ps arbitrary: rows d)
  case Nil
  then show ?case by simp
next
  case (Cons p ps)
  from Cons.prems(2) obtain obj where p: "p = Modified obj" and io: "id_pk obj = i"
    and rest: "list_all (\<lambda>p. \<exists>obj. p = Modified obj \<and> id_pk obj = i) ps"
    by auto
  from Cons.prems(1) obtain r1 where r1: "flush (Modified obj) rows = Inr r1"
    and r2: "flush_all ps r1 = Inr rows'"
    by (cases "flush (Modified obj) rows") (simp_all add: p raise_or_def del: flush.simps)
  have m: "r1 = map (\<lambda>r. if id_pk r = i then obj else r) rows"
    using flush_modified_Inr [OF r1] io by simp
  have f1: "fetch r1 i = Some obj"
    using Cons.prems(3) io by (simp add: m fetch_map_same)
  have o1: "\<forall>j. j \<noteq> i \<longrightarrow> fetch r1 j = fetch rows j"
    using io by (simp add: m fetch_map_other)
  from Cons.IH [OF r2 rest f1] o1 show ?case by (simp add: p)
qed

text \<open>
  Claim C6. After a full update of an existing drink that answers 200, the drink keeps its
  id; each of name, description, price and duration has the value coerced from the form
  if the form has the field, and its former value otherwise; the lookup of every other id
  gives what it gave before. A form with the description alone always answers 200 and
  changes the description alone.
\<close>

theorem update_drink_frame:
  assumes "fetch rows i = Some d"
  shows "(\<forall>b. fst (update_drink rows i form) = Inr (b, 200) \<longrightarrow>
            (\<exists>d'. fetch (catalog (update_drink rows i form)) i = Some d'
               \<and> id_pk d' = i
               \<and> name d' = (case form ''name'' of None \<Rightarrow> name d | Some v \<Rightarrow> v)
               \<and> description d' =
                   (case form ''description'' of None \<Rightarrow> description d | Some v \<Rightarrow> Some v)
               \<and> (case form ''price'' of
                     None \<Rightarrow> price d' = price d
                   | Some v \<Rightarrow> \<exists>p. str_to_float v = Some p \<and> price d' = PyFloat p)
               \<and> (case form ''duration'' of
                     None \<Rightarrow> duration d' = duration d
                   | Some v \<Rightarrow> str_to_int v = Some (duration d')))
            \<and> (\<forall>j. j \<noteq> i \<longrightarrow> fetch (catalog (update_drink rows i form)) j = fetch rows j))
       \<and> (\<forall>v. form ''name'' = None \<and> form ''description'' = Some v
               \<and> form ''price'' = None \<and> form ''duration'' = None \<longrightarrow>
            fst (update_drink rows i form) =
              Inr (jsonify (JObj [(''message'', JStr ''Drink updated successfully'')]), 200)
            \<and> fetch (catalog (update_drink rows i form)) i = Some (d\<lparr>description := Some v\<rparr>))"
proof -
  have idd: "id_pk d = i" using assms by (rule fetch_Some_id)
  have q: "query_get \<lparr>table = rows, pending = []\<rparr> i = Inr (Some d)"
    using assms by (rule fetch_Some_query)
  have f: "find (\<lambda>r. id_pk r = i) rows = Some d"
    using assms by (auto simp: fetch_find split: if_splits)
  define d1 where "d1 = (case form ''name'' of None \<Rightarrow> d | Some v \<Rightarrow> d\<lparr>name := v\<rparr>)"
  define d2 where
    "d2 = (case form ''description'' of None \<Rightarrow> d1 | Some v \<Rightarrow> d1\<lparr>description := Some v\<rparr>)"
  define d3 where
    "d3 = (case form ''price'' of
             None \<Rightarrow> d2
           | Some v \<Rightarrow> (case str_to_float v of None \<Rightarrow> d2 | Some p \<Rightarrow> d2\<lparr>price := PyFloat p\<rparr>))"
  define d4 where
    "d4 = (case form ''duration'' of
             None \<Rightarrow> d3
           | Some v \<Rightarrow> (case str_to_int v of None \<Rightarrow> d3 | Some t \<Rightarrow> d3\<lparr>duration := t\<rparr>))"
  define ps where
    "ps = (case form ''name'' of None \<Rightarrow> [] | Some v \<Rightarrow> [Modified d1])
        @ (case form ''description'' of None \<Rightarrow> [] | Some v \<Rightarrow> [Modified d2])
        @ (case form ''price'' of None \<Rightarrow> [] | Some v \<Rightarrow> [Modified d3])
        @ (case form ''duration'' of None \<Rightarrow> [] | Some v \<Rightarrow> [Modified d4])"
  define ok where
    "ok = (jsonify (JObj [(''message'', JStr ''Drink updated successfully'')]), 200::nat)"
  define bad where
    "bad = ((\<exists>v. form ''price'' = Some v \<and> str_to_float v = None)
          \<or> (\<exists>v. form ''duration'' = Some v \<and> str_to_int v = None))"
  have ids: "id_pk d1 = i" "id_pk d2 = i" "id_pk d3 = i" "id_pk d4 = i"
    by (simp_all add: d1_def d2_def d3_def d4_def idd split: option.splits)
  have all: "list_all (\<lambda>p. \<exists>obj. p = Modified obj \<and> id_pk obj = i) ps"
    by (simp add: ps_def ids split: option.splits)
  have last: "foldl (\<lambda>a p. case p of Modified obj \<Rightarrow> obj | _ \<Rightarrow> a) d ps = d4"
    by (simp add: ps_def d1_def d2_def d3_def d4_def split: option.splits)
  have rejected: "bad \<Longrightarrow> \<exists>b. fst (update_drink rows i form) = Inr (b, 400)"
    unfolding bad_def using update_drink_rejects [OF assms, of form] by blast
  have shape: "\<not> bad \<Longrightarrow>
      update_drink rows i form = commit_and_return \<lparr>table = rows, pending = ps\<rparr> ok"
    unfolding bad_def using q
    by (auto simp: update_drink_def begin_session_def session_add_def assign_def
        py_float_def py_int_def Let_def ps_def d1_def d2_def d3_def d4_def ok_def
        split: option.splits)
  have c1: "\<forall>b. fst (update_drink rows i form) = Inr (b, 200) \<longrightarrow>
            (\<exists>d'. fetch (catalog (update_drink rows i form)) i = Some d'
               \<and> id_pk d' = i
               \<and> name d' = (case form ''name'' of None \<Rightarrow> name d | Some v \<Rightarrow> v)
               \<and> description d' =
                   (case form ''description'' of None \<Rightarrow> description d | Some v \<Rightarrow> Some v)
               \<and> (case form ''price'' of
                     None \<Rightarrow> price d' = price d
                   | Some v \<Rightarrow> \<exists>p. str_to_float v = Some p \<and> price d' = PyFloat p)
               \<and> (case form ''duration'' of
                     None \<Rightarrow> duration d' = duration d
                   | Some v \<Rightarrow> str_to_int v = Some (duration d')))
            \<and> (\<forall>j. j \<noteq> i \<longrightarrow> fetch (catalog (update_drink rows i form)) j = fetch rows j)"
  proof (intro allI impI)
    fix b
    assume s200: "fst (update_drink rows i form) = Inr (b, 200)"
    have nb: "\<not> bad"
    proof
      assume bad
      from rejected [OF this] s200 show False by auto
    qed
    from shape [OF nb] s200 obtain rows' where fa: "flush_all ps rows = Inr rows'"
      and cat: "catalog (update_drink rows i form) = rows'"
      by (cases "flush_all ps rows")
        (simp_all add: commit_and_return_def commit_def catalog_def)
    from flush_all_modified [OF fa all assms] last
    have got: "fetch rows' i = Some d4" and others: "\<forall>j. j \<noteq> i \<longrightarrow> fetch rows' j = fetch rows j"
      by simp_all
    have fields: "name d4 = (case form ''name'' of None \<Rightarrow> name d | Some v \<Rightarrow> v)"
      "description d4 =
         (case form ''description'' of None \<Rightarrow> description d | Some v \<Rightarrow> Some v)"
      "(case form ''price'' of
          None \<Rightarrow> price d4 = price d
        | Some v \<Rightarrow> \<exists>p. str_to_float v = Some p \<and> price d4 = PyFloat p)"
      "(case form ''duration'' of
          None \<Rightarrow> duration d4 = duration d
        | Some v \<Rightarrow> str_to_int v = Some (duration d4))"
      using nb unfolding bad_def
      by (auto simp: d1_def d2_def d3_def d4_def split: option.splits)
    show "(\<exists>d'. fetch (catalog (update_drink rows i form)) i = Some d'
               \<and> id_pk d' = i
               \<and> name d' = (case form ''name'' of None \<Rightarrow> name d | Some v \<Rightarrow> v)
               \<and> description d' =
                   (case form ''description'' of None \<Rightarrow> description d | Some v \<Rightarrow> Some v)
               \<and> (case form ''price'' of
                     None \<Rightarrow> price d' = price d
                   | Some v \<Rightarrow> \<exists>p. str_to_float v = Some p \<and> price d' = PyFloat p)
               \<and> (case form ''duration'' of
                     None \<Rightarrow> duration d' = duration d
                   | Some v \<Rightarrow> str_to_int v = Some (duration d')))
            \<and> (\<forall>j. j \<noteq> i \<longrightarrow> fetch (catalog (update_drink rows i form)) j = fetch rows j)"
      using got others fields ids(4) unfolding cat by blast
  qed
  have c2: "\<forall>v. form ''name'' = None \<and> form ''description'' = Some v
               \<and> form ''price'' = None \<and> form ''duration'' = None \<longrightarrow>
            fst (update_drink rows i form) =
              Inr (jsonify (JObj [(''message'', JStr ''Drink updated successfully'')]), 200)
            \<and> fetch (catalog (update_drink rows i form)) i = Some (d\<lparr>description := Some v\<rparr>)"
  proof (intro allI impI)
    fix v
    assume only: "form ''name'' = None \<and> form ''description'' = Some v
               \<and> form ''price'' = None \<and> form ''duration'' = None"
    then have nb: "\<not> bad" by (simp add: bad_def)
    from only have p1: "ps = [Modified (d\<lparr>description := Some v\<rparr>)]"
      by (simp add: ps_def d1_def d2_def)
    have fl: "flush (Modified (d\<lparr>description := Some v\<rparr>)) rows =
        Inr (map (\<lambda>r. if id_pk r = i then d\<lparr>description := Some v\<rparr> else r) rows)"
      using f by (simp add: idd)
    have u: "update_drink rows i form =
        (Inr ok, \<lparr>table = map (\<lambda>r. if id_pk r = i then d\<lparr>description := Some v\<rparr> else r) rows,
                   pending = []\<rparr>)"
      using shape [OF nb] fl
      by (simp add: p1 commit_and_return_def commit_def raise_or_def del: flush.simps)
    show "fst (update_drink rows i form) =
              Inr (jsonify (JObj [(''message'', JStr ''Drink updated successfully'')]), 200)
            \<and> fetch (catalog (update_drink rows i form)) i = Some (d\<lparr>description := Some v\<rparr>)"
      using assms by (simp add: u ok_def catalog_def fetch_map_same idd)
  qed
  show ?thesis using c1 c2 by blast
qed

theorem update_drink_frame_witness:
  "fetch sample_rows 2 = Some (sample_rows ! 1)
   \<and> fst (update_drink sample_rows 2 [''description'' \<mapsto> ''dark roast'']) =
        Inr (jsonify (JObj [(''message'', JStr ''Drink updated successfully'')]), 200)
   \<and> fetch (catalog (update_drink sample_rows 2 [''description'' \<mapsto> ''dark roast''])) 2 =
        Some \<lparr>id_pk = 2, name = ''Coffee'', description = Some ''dark roast'',
              price = PyFloat (Finite 8), duration = 5\<rparr>
   \<and> fetch (catalog (update_drink sample_rows 2 [''description'' \<mapsto> ''dark roast''])) 1 =
        fetch sample_rows 1"
proof -
  have h: "fetch sample_rows 2 = Some (sample_rows ! 1)"
    by (simp add: fetch_find sample_rows_def sqlite_int_def)
  show ?thesis
    using h update_drink_frame [OF h, of "[''description'' \<mapsto> ''dark roast'']"]
    by (simp add: sample_rows_def)
qed

subsection \<open>Create\<close>

lemma str_to_float_empty: "str_to_float [] = None"
  by (simp add: str_to_float_def strip_def split_sign_def lower_def parse_decimal_def)

lemma str_to_int_empty: "str_to_int [] = None"
  by (simp add: str_to_int_def strip_def split_sign_def)

lemma fold_max_ge: "x \<in> set (i # js) \<Longrightarrow> x \<le> fold max js (i::int)"
  by (simp only: Max.set_eq_fold [symmetric]) (rule Max_ge, simp_all)

lemma next_id_greater: "r \<in> set rows \<Longrightarrow> id_pk r < next_id rows"
proof (cases rows)
  case Nil
  then show "r \<in> set rows \<Longrightarrow> id_pk r < next_id rows" by simp
next
  case (Cons a as)
  assume "r \<in> set rows"
  then have "id_pk r \<in> set (id_pk a # map id_pk as)" using Cons by auto
  then have "id_pk r \<le> fold max (map id_pk as) (id_pk a)" by (rule fold_max_ge)
  then show "id_pk r < next_id rows" using Cons by (simp add: next_id_def)
qed

lemma next_id_fresh: "next_id rows \<notin> id_pk ` set rows"
  using next_id_greater by fastforce

lemmas coercion_eval =
  str_to_float_def str_to_int_def strip_def is_space_def split_sign_def is_digit_def
  lower_def lower_ascii_def parse_decimal_def parse_exponent_def int_of_digits_def
  digit_val_def pow10_def

lemma add_drink_in_range:
  "((\<not> truthy (form ''name'') \<or> \<not> truthy (form ''price'') \<or> \<not> truthy (form ''duration'')
       \<or> (\<exists>v. form ''price'' = Some v \<and> str_to_float v = None)
       \<or> (\<exists>v. form ''duration'' = Some v \<and> str_to_int v = None)) \<longrightarrow>
      (\<exists>msg. fst (add_drink rows form) = Inr (jsonify (JObj [(''error'', JStr msg)]), 400))
      \<and> catalog (add_drink rows form) = rows)
   \<and> (\<forall>n pv p dv t.
         form ''name'' = Some n \<and> n \<noteq> [] \<and> form ''price'' = Some pv \<and> str_to_float pv = Some p
         \<and> form ''duration'' = Some dv \<and> str_to_int dv = Some t \<longrightarrow>
         (p \<noteq> NaN \<and> sqlite_int t \<longrightarrow>
            fst (add_drink rows form) =
              Inr (jsonify (JObj [(''message'', JStr ''New drink added successfully'')]), 201)
            \<and> catalog (add_drink rows form) =
                rows @ [\<lparr>id_pk = next_id rows, name = n, description = form ''description'',
                         price = PyFloat p, duration = t\<rparr>]
            \<and> next_id rows \<notin> id_pk ` set rows)
         \<and> (\<not> sqlite_int t \<longrightarrow>
              fst (add_drink rows form) = Inl OverflowError
              \<and> catalog (add_drink rows form) = rows)
         \<and> (p = NaN \<and> sqlite_int t \<longrightarrow>
              fst (add_drink rows form) = Inl IntegrityError
              \<and> catalog (add_drink rows form) = rows))"
proof (intro conjI impI allI)
  assume bad: "\<not> truthy (form ''name'') \<or> \<not> truthy (form ''price'') \<or> \<not> truthy (form ''duration'')
       \<or> (\<exists>v. form ''price'' = Some v \<and> str_to_float v = None)
       \<or> (\<exists>v. form ''duration'' = Some v \<and> str_to_int v = None)"
  then show "\<exists>msg. fst (add_drink rows form) = Inr (jsonify (JObj [(''error'', JStr msg)]), 400)"
    by (auto simp: add_drink_def truthy_def py_float_def py_int_def Let_def
        split: option.splits)
  from bad show "catalog (add_drink rows form) = rows"
    by (auto simp: add_drink_def truthy_def py_float_def py_int_def Let_def catalog_def
        begin_session_def split: option.splits)
next
  fix n pv p dv t
  assume ok: "form ''name'' = Some n \<and> n \<noteq> [] \<and> form ''price'' = Some pv \<and> str_to_float pv = Some p
         \<and> form ''duration'' = Some dv \<and> str_to_int dv = Some t"
  then have ne: "pv \<noteq> []" "dv \<noteq> []"
    using str_to_float_empty str_to_int_empty by auto
  have run: "add_drink rows form =
      commit_and_return \<lparr>table = rows, pending = [Added n (form ''description'') (PyFloat p) t]\<rparr>
        (jsonify (JObj [(''message'', JStr ''New drink added successfully'')]), 201)"
    using ok ne
    by (simp add: add_drink_def truthy_def py_float_def py_int_def Let_def begin_session_def
        session_add_def)
  {
    assume "p \<noteq> NaN \<and> sqlite_int t"
    then show "fst (add_drink rows form) =
           Inr (jsonify (JObj [(''message'', JStr ''New drink added successfully'')]), 201)"
      and "catalog (add_drink rows form) =
             rows @ [\<lparr>id_pk = next_id rows, name = n, description = form ''description'',
                      price = PyFloat p, duration = t\<rparr>]"
      by (simp_all add: run commit_and_return_def commit_def raise_or_def binds_def
          binds_null_def catalog_def)
    show "next_id rows \<notin> id_pk ` set rows" by (rule next_id_fresh)
  next
    assume "\<not> sqlite_int t"
    then show "fst (add_drink rows form) = Inl OverflowError"
      and "catalog (add_drink rows form) = rows"
      by (simp_all add: run commit_and_return_def commit_def raise_or_def rollback_def
          catalog_def)
  next
    assume "p = NaN \<and> sqlite_int t"
    then show "fst (add_drink rows form) = Inl IntegrityError"
      and "catalog (add_drink rows form) = rows"
      by (simp_all add: run commit_and_return_def commit_def raise_or_def rollback_def
          binds_def binds_null_def catalog_def)
  }
qed

text \<open>
  Claim C4. The claim promises a persisted drink and the answer 201 whenever the name is
  present and both coercions succeed. The handler keeps this promise only for a price
  other than NaN and a duration that fits the store's 64-bit integer. The price nan
  reads as a float and the duration 9223372036854775808 reads as an integer, so
  neither is answered with 400; the commit then raises IntegrityError for the one and
  OverflowError for the other, no response is returned and no row is persisted.
\<close>

theorem add_drink_unchecked_values:
  "truthy (Some ''Mate'') \<and> str_to_float ''nan'' = Some NaN \<and> str_to_int ''3'' = Some 3
   \<and> fst (add_drink sample_rows
            [''name'' \<mapsto> ''Mate'', ''price'' \<mapsto> ''nan'', ''duration'' \<mapsto> ''3'']) =
        Inl IntegrityError
   \<and> catalog (add_drink sample_rows
            [''name'' \<mapsto> ''Mate'', ''price'' \<mapsto> ''nan'', ''duration'' \<mapsto> ''3'']) =
        sample_rows
   \<and> str_to_float ''4'' = Some (Finite 4)
   \<and> str_to_int ''9223372036854775808'' = Some 9223372036854775808
   \<and> fst (add_drink sample_rows
            [''name'' \<mapsto> ''Mate'', ''price'' \<mapsto> ''4'',
             ''duration'' \<mapsto> ''9223372036854775808'']) =
        Inl OverflowError
   \<and> catalog (add_drink sample_rows
            [''name'' \<mapsto> ''Mate'', ''price'' \<mapsto> ''4'',
             ''duration'' \<mapsto> ''9223372036854775808'']) =
        sample_rows"
proof -
  have c: "str_to_float ''nan'' = Some NaN" "str_to_int ''3'' = Some 3"
    "str_to_float ''4'' = Some (Finite 4)"
    "str_to_int ''9223372036854775808'' = Some 9223372036854775808"
    by (simp_all add: coercion_eval)
  show ?thesis
    by (simp add: c add_drink_def truthy_def py_float_def py_int_def Let_def
        begin_session_def session_add_def commit_and_return_def commit_def raise_or_def
        rollback_def binds_def binds_null_def sqlite_int_def catalog_def)
qed

theorem add_drink_unchecked_values_witness:
  "fst (add_drink sample_rows
          [''name'' \<mapsto> ''Mate'', ''price'' \<mapsto> ''nan'', ''duration'' \<mapsto> ''3'']) =
     Inl IntegrityError
   \<and> fst (add_drink sample_rows
            [''name'' \<mapsto> ''Mate'', ''price'' \<mapsto> ''4'',
             ''duration'' \<mapsto> ''9223372036854775808'']) =
        Inl OverflowError"
  using add_drink_unchecked_values by simp

subsection \<open>Longest duration\<close>

lemma sql_max_Max: "xs \<noteq> [] \<Longrightarrow> sql_max xs = Some (Max (set xs))"
proof (cases xs)
  case Nil
  then show "xs \<noteq> [] \<Longrightarrow> sql_max xs = Some (Max (set xs))" by simp
next
  case (Cons a as)
  have "fold max as a = Max (set (a # as))" by (rule Max.set_eq_fold [symmetric])
  then show "sql_max xs = Some (Max (set xs))" using Cons by (simp add: sql_max_def)
qed

lemma find_exists: "\<exists>x\<in>set xs. P x \<Longrightarrow> \<exists>y. find P xs = Some y \<and> y \<in> set xs \<and> P y"
  by (induction xs) auto

text \<open>
  Claim C8. On an empty catalog the handler answers with the message that no drinks were
  found. On a catalog that is not empty it answers with the greatest duration of all rows
  and the name of the first row, in the store's order, that has this duration. On the two
  drinks A with duration 10 and B with duration 20 it answers 20 and B.
\<close>

theorem get_max_duration_spec:
  "fst (get_max_duration []) = Inr (jsonify (JObj [(''message'', JStr ''No drinks found'')]), 200)
   \<and> (rows \<noteq> [] \<longrightarrow>
        (\<exists>d. find (\<lambda>r. duration r = Max (duration ` set rows)) rows = Some d
            \<and> d \<in> set rows
            \<and> (\<forall>r\<in>set rows. duration r \<le> duration d)
            \<and> fst (get_max_duration rows) =
                Inr (jsonify (JObj [(''max_duration'', JInt (duration d)),
                                    (''drink_name'', JStr (name d))]), 200)))
   \<and> (\<forall>a b. name a = ''A'' \<and> duration a = 10 \<and> name b = ''B'' \<and> duration b = 20 \<longrightarrow>
         fst (get_max_duration [a, b]) =
           Inr (jsonify (JObj [(''max_duration'', JInt 20), (''drink_name'', JStr ''B'')]), 200))"
proof (intro conjI impI allI)
  show "fst (get_max_duration []) =
      Inr (jsonify (JObj [(''message'', JStr ''No drinks found'')]), 200)"
    by (simp add: get_max_duration_def begin_session_def sql_max_def)
next
  assume ne: "rows \<noteq> []"
  let ?m = "Max (duration ` set rows)"
  have fin: "finite (duration ` set rows)" "duration ` set rows \<noteq> {}"
    using ne by simp_all
  have mx: "sql_max (map duration rows) = Some ?m"
    using ne by (simp add: sql_max_Max)
  have "?m \<in> duration ` set rows" using fin by (rule Max_in)
  then have "\<exists>x\<in>set rows. duration x = ?m" by auto
  then obtain d where d: "find (\<lambda>r. duration r = ?m) rows = Some d" "d \<in> set rows"
    "duration d = ?m"
    using find_exists [of rows "\<lambda>r. duration r = ?m"] by blast
  have ge: "\<forall>r\<in>set rows. duration r \<le> duration d"
    using d(3) fin(1) by simp
  have "fst (get_max_duration rows) =
      Inr (jsonify (JObj [(''max_duration'', JInt (duration d)),
                          (''drink_name'', JStr (name d))]), 200)"
    using d mx by (simp add: get_max_duration_def begin_session_def json_opt_int_def)
  with d ge show "\<exists>d. find (\<lambda>r. duration r = ?m) rows = Some d
            \<and> d \<in> set rows
            \<and> (\<forall>r\<in>set rows. duration r \<le> duration d)
            \<and> fst (get_max_duration rows) =
                Inr (jsonify (JObj [(''max_duration'', JInt (duration d)),
                                    (''drink_name'', JStr (name d))]), 200)"
    by blast
next
  fix a b :: DrinkService
  assume "name a = ''A'' \<and> duration a = 10 \<and> name b = ''B'' \<and> duration b = 20"
  then show "fst (get_max_duration [a, b]) =
      Inr (jsonify (JObj [(''max_duration'', JInt 20), (''drink_name'', JStr ''B'')]), 200)"
    by (simp add: get_max_duration_def begin_session_def sql_max_def json_opt_int_def)
qed

theorem get_max_duration_spec_witness:
  "sample_rows \<noteq> []
   \<and> find (\<lambda>r. duration r = Max (duration ` set sample_rows)) sample_rows = Some (sample_rows ! 2)
   \<and> fst (get_max_duration sample_rows) =
        Inr (jsonify (JObj [(''max_duration'', JInt 10), (''drink_name'', JStr ''Cocoa'')]), 200)"
proof -
  have h: "sample_rows \<noteq> []" by (simp add: sample_rows_def)
  have m: "Max (duration ` set sample_rows) = 10" by (simp add: sample_rows_def)
  show ?thesis
    using h get_max_duration_spec [of sample_rows]
    by (auto simp: m sample_rows_def)
qed

subsection \<open>The pattern of the name filter\<close>

lemma lower_ascii_percent: "(CHR ''%'' = lower_ascii c) = (c = CHR ''%'')"
  by (auto simp: lower_ascii_def)

lemma lower_ascii_underscore: "(CHR ''_'' = lower_ascii c) = (c = CHR ''_'')"
  by (auto simp: lower_ascii_def)

lemma lower_no_wildcard:
  "CHR ''%'' \<notin> set n \<Longrightarrow> CHR ''_'' \<notin> set n \<Longrightarrow>
   CHR ''%'' \<notin> set (lower n) \<and> CHR ''_'' \<notin> set (lower n)"
  by (auto simp: lower_def image_iff lower_ascii_percent lower_ascii_underscore)

lemma like_percent: "like ''%'' s"
  by (induction s) simp_all

lemma starts_with_Nil: "starts_with [] n = (n = [])"
  by (cases n) simp_all

lemma like_prefix:
  "CHR ''%'' \<notin> set p \<Longrightarrow> CHR ''_'' \<notin> set p \<Longrightarrow> like (p @ ''%'') s = starts_with s p"
proof (induction p arbitrary: s)
  case Nil
  then show ?case using like_percent by simp
next
  case (Cons a p)
  then show ?case by (cases s) auto
qed

lemma like_contains:
  assumes "CHR ''%'' \<notin> set n" "CHR ''_'' \<notin> set n"
  shows "like (CHR ''%'' # n @ ''%'') s = contains s n"
proof (induction s)
  case Nil
  show ?case using like_prefix [OF assms, of "[]"] by (simp add: starts_with_Nil)
next
  case (Cons c cs)
  show ?case using Cons like_prefix [OF assms, of "c # cs"] by simp
qed

lemma ilike_substring:
  assumes "CHR ''%'' \<notin> set n" "CHR ''_'' \<notin> set n"
  shows "ilike s (''%'' @ n @ ''%'') = spec_name_match n s"
proof -
  have w: "CHR ''%'' \<notin> set (lower n)" "CHR ''_'' \<notin> set (lower n)"
    using lower_no_wildcard [OF assms] by simp_all
  have "lower (''%'' @ n @ ''%'') = CHR ''%'' # lower n @ ''%''"
    by (simp add: lower_def lower_ascii_def)
  then show ?thesis
    using like_contains [OF w] by (simp add: ilike_def spec_name_match_def)
qed

subsection \<open>List and filter\<close>

lemma raise_or_if:
  "raise_or (if c then Inl e else Inr x) f = (if c then Inl e else f x)"
  by (simp add: raise_or_def)

lemma name_step:
  "(if truthy a then query_filter q (\<lambda>d. ilike (name d) (''%'' @ fstr a @ ''%'')) else q) =
   (fst q, filter (\<lambda>d. \<forall>n. a = Some n \<and> n \<noteq> [] \<longrightarrow> ilike (name d) (''%'' @ n @ ''%''))
             (snd q))"
  by (cases a) (auto simp: truthy_def fstr_def query_filter_def)

lemma float_step:
  "(if truthy a then raise_or (py_float a) (\<lambda>b. Inr (query_filter q (R b))) else Inr q) =
   (if \<exists>v. a = Some v \<and> v \<noteq> [] \<and> str_to_float v = None then Inl ValueError
    else Inr (fst q,
              filter (\<lambda>d. \<forall>v b. a = Some v \<and> v \<noteq> [] \<and> str_to_float v = Some b \<longrightarrow> R b d)
                (snd q)))"
proof (cases a)
  case None
  then show ?thesis by (simp add: truthy_def)
next
  case (Some v)
  show ?thesis
  proof (cases "v = []")
    case True
    with Some show ?thesis by (simp add: truthy_def)
  next
    case False
    with Some show ?thesis
      by (cases "str_to_float v")
        (simp_all add: truthy_def py_float_def raise_or_def query_filter_def)
  qed
qed

lemma int_step:
  "(if truthy a then raise_or (py_int a) (\<lambda>b. Inr (query_filter_int q b (R b))) else Inr q) =
   (if \<exists>v. a = Some v \<and> v \<noteq> [] \<and> str_to_int v = None then Inl ValueError
    else Inr ((case a of
                 None \<Rightarrow> []
               | Some v \<Rightarrow> if v = [] then []
                           else (case str_to_int v of None \<Rightarrow> [] | Some b \<Rightarrow> [b])) @ fst q,
              filter (\<lambda>d. \<forall>v b. a = Some v \<and> v \<noteq> [] \<and> str_to_int v = Some b \<longrightarrow> R b d)
                (snd q)))"
proof (cases a)
  case None
  then show ?thesis by (simp add: truthy_def)
next
  case (Some v)
  show ?thesis
  proof (cases "v = []")
    case True
    with Some show ?thesis by (simp add: truthy_def)
  next
    case False
    with Some show ?thesis
      by (cases "str_to_int v")
        (simp_all add: truthy_def py_int_def raise_or_def query_filter_int_def)
  qed
qed

lemma bound_fits:
  "list_all sqlite_int
     (case a of
        None \<Rightarrow> []
      | Some v \<Rightarrow> if v = [] then []
                  else (case str_to_int v of None \<Rightarrow> [] | Some b \<Rightarrow> [b])) =
   (\<not> (\<exists>v b. a = Some v \<and> v \<noteq> [] \<and> str_to_int v = Some b \<and> \<not> sqlite_int b))"
  by (auto split: option.splits)

lemma filter_drinks_cases:
  "fst (filter_drinks rows args) =
     (if (\<exists>v. args ''min_price'' = Some v \<and> v \<noteq> [] \<and> str_to_float v = None)
       \<or> (\<exists>v. args ''max_price'' = Some v \<and> v \<noteq> [] \<and> str_to_float v = None)
       \<or> (\<exists>v. args ''min_duration'' = Some v \<and> v \<noteq> [] \<and> str_to_int v = None)
       \<or> (\<exists>v. args ''max_duration'' = Some v \<and> v \<noteq> [] \<and> str_to_int v = None)
      then Inl ValueError
      else if (\<exists>v b. args ''min_duration'' = Some v \<and> v \<noteq> [] \<and> str_to_int v = Some b
                 \<and> \<not> sqlite_int b)
            \<or> (\<exists>v b. args ''max_duration'' = Some v \<and> v \<noteq> [] \<and> str_to_int v = Some b
                 \<and> \<not> sqlite_int b)
      then Inl OverflowError
      else Inr (jsonify (JArr (map drink_json (filter (\<lambda>d.
         (\<forall>n. args ''name'' = Some n \<and> n \<noteq> [] \<longrightarrow> ilike (name d) (''%'' @ n @ ''%''))
       \<and> (\<forall>v b. args ''min_price'' = Some v \<and> v \<noteq> [] \<and> str_to_float v = Some b \<longrightarrow>
             float_le b (as_float (price d)))
       \<and> (\<forall>v b. args ''max_price'' = Some v \<and> v \<noteq> [] \<and> str_to_float v = Some b \<longrightarrow>
             float_le (as_float (price d)) b)
       \<and> (\<forall>v b. args ''min_duration'' = Some v \<and> v \<noteq> [] \<and> str_to_int v = Some b \<longrightarrow>
             b \<le> duration d)
       \<and> (\<forall>v b. args ''max_duration'' = Some v \<and> v \<noteq> [] \<and> str_to_int v = Some b \<longrightarrow>
             duration d \<le> b)) rows))), 200))"
  unfolding filter_drinks_def Let_def begin_session_def fst_conv snd_conv session.simps
    name_step float_step int_step raise_or_if
  unfolding fst_conv snd_conv query_all_def list_all_append bound_fits raise_or_if
    append_Nil2
  unfolding filter_filter conj_assoc
  by (simp add: raise_or_def)


lemmas filter_eval =
  filter_drinks_def begin_session_def Let_def truthy_def fstr_def raise_or_def py_float_def
  py_int_def ilike_def as_float_def jsonify_def sample_rows_def query_filter_def
  query_filter_int_def query_all_def sqlite_int_def

text \<open>
  Claim C1. The claim reads the name filter as a case-insensitive substring test, and so
  does the description of the parameter in the handler (a search by partial match). The
  handler puts the supplied name between two \<open>%\<close> and hands it to LIKE as it is, so a
  \<open>%\<close> or a \<open>_\<close> inside the name is a wildcard: for the name \<open>_\<close> every drink of the
  catalog is returned, although no stored name contains that character. A duration
  bound that reads as an integer beyond 64 bits makes the query raise OverflowError,
  where the claim promises a list.
\<close>

theorem filter_drinks_wildcard_name:
  "fst (filter_drinks sample_rows [''name'' \<mapsto> ''_'']) =
     Inr (jsonify (JArr (map drink_json sample_rows)), 200)
   \<and> \<not> spec_name_match ''_'' (name (sample_rows ! 0))
   \<and> \<not> spec_name_match ''_'' (name (sample_rows ! 1))
   \<and> \<not> spec_name_match ''_'' (name (sample_rows ! 2))
   \<and> str_to_int ''99999999999999999999'' = Some 99999999999999999999
   \<and> fst (filter_drinks sample_rows [''max_duration'' \<mapsto> ''99999999999999999999'']) =
       Inl OverflowError"
  by (simp add: filter_eval coercion_eval spec_name_match_def)

theorem filter_drinks_wildcard_name_witness:
  "fst (filter_drinks sample_rows [''name'' \<mapsto> ''_'']) =
     Inr (jsonify (JArr (map drink_json sample_rows)), 200)"
  using filter_drinks_wildcard_name by simp

lemma filter_drinks_examples:
  "fst (filter_drinks sample_rows [''min_price'' \<mapsto> ''5'', ''max_price'' \<mapsto> ''5'']) =
     Inr (jsonify (JArr [drink_json (sample_rows ! 0), drink_json (sample_rows ! 2)]), 200)"
  "fst (filter_drinks sample_rows [''name'' \<mapsto> ''co'']) =
     Inr (jsonify (JArr [drink_json (sample_rows ! 1), drink_json (sample_rows ! 2)]), 200)"
  by (simp_all add: filter_eval coercion_eval)






text \<open>
  Claim C10. For each of the five filter parameters, supplying it with the empty string
  gives the result and the session that leaving it out gives; a request with that
  parameter alone, empty, answers 200 with every row of the catalog.
\<close>

theorem filter_drinks_empty_value:
  "k \<in> set [''name'', ''min_price'', ''max_price'', ''min_duration'', ''max_duration''] \<Longrightarrow>
   filter_drinks rows (args(k \<mapsto> [])) = filter_drinks rows (args(k := None))
   \<and> fst (filter_drinks rows [k \<mapsto> []]) = Inr (jsonify (JArr (map drink_json rows)), 200)"
proof -
  have n: "filter_drinks rows (args(''name'' \<mapsto> [])) = filter_drinks rows (args(''name'' := None))"
    by (simp add: filter_drinks_def truthy_def)
  have a: "filter_drinks rows (args(''min_price'' \<mapsto> [])) =
           filter_drinks rows (args(''min_price'' := None))"
    by (simp add: filter_drinks_def truthy_def)
  have b: "filter_drinks rows (args(''max_price'' \<mapsto> [])) =
           filter_drinks rows (args(''max_price'' := None))"
    by (simp add: filter_drinks_def truthy_def)
  have c: "filter_drinks rows (args(''min_duration'' \<mapsto> [])) =
           filter_drinks rows (args(''min_duration'' := None))"
    by (simp add: filter_drinks_def truthy_def)
  have d: "filter_drinks rows (args(''max_duration'' \<mapsto> [])) =
           filter_drinks rows (args(''max_duration'' := None))"
    by (simp add: filter_drinks_def truthy_def)
  have e: "fst (filter_drinks rows [k \<mapsto> []]) = Inr (jsonify (JArr (map drink_json rows)), 200)"
    by (simp add: filter_drinks_cases)
  assume "k \<in> set [''name'', ''min_price'', ''max_price'', ''min_duration'', ''max_duration'']"
  then show ?thesis using n a b c d e by auto
qed

theorem filter_drinks_empty_value_witness:
  "''min_price'' \<in> set [''name'', ''min_price'', ''max_price'', ''min_duration'', ''max_duration'']
   \<and> filter_drinks sample_rows [''name'' \<mapsto> ''co'', ''min_price'' \<mapsto> []] =
       filter_drinks sample_rows [''name'' \<mapsto> ''co'']
   \<and> fst (filter_drinks sample_rows [''min_price'' \<mapsto> []]) =
       Inr (jsonify (JArr (map drink_json sample_rows)), 200)"
proof -
  have h: "''min_price'' \<in> set [''name'', ''min_price'', ''max_price'', ''min_duration'', ''max_duration'']"
    by simp
  have u: "[''name'' \<mapsto> ''co''](''min_price'' := None) = [''name'' \<mapsto> ''co'']"
    by (rule ext) simp
  show ?thesis
    using h filter_drinks_empty_value [OF h, of sample_rows "[''name'' \<mapsto> ''co'']"] u
    by simp
qed

end
